theory Spec2Isabelle
  imports Main
begin

section \<open>JavaScript values used by the migrations\<close>

text \<open>
  Strings are \<^typ>\<open>string\<close>; a value of type \<open>string | undefined\<close> is a
  \<^typ>\<open>string option\<close> with \<open>None\<close> for \<open>undefined\<close>.
\<close>

text \<open>A template literal \<open>${value}\<close> prints \<open>undefined\<close> as the nine letters of its name.\<close>

fun templateString :: "string option \<Rightarrow> string" where
  "templateString None = ''undefined''"
| "templateString (Some s) = s"

text \<open>Truthiness of \<open>string | undefined\<close>: \<open>undefined\<close> and the empty string are falsy.\<close>

fun truthy :: "string option \<Rightarrow> bool" where
  "truthy None = False"
| "truthy (Some s) = (s \<noteq> [])"

text \<open>\<open>a || b\<close> on such a value: \<open>a\<close> when it is truthy, otherwise \<open>b\<close>.\<close>

fun orElse :: "string option \<Rightarrow> string \<Rightarrow> string" where
  "orElse None d = d"
| "orElse (Some s) d = (if s = [] then d else s)"

text \<open>\<open>Array.prototype.join\<close> on an array of strings.\<close>

fun joinWith :: "string \<Rightarrow> string list \<Rightarrow> string" where
  "joinWith sep [] = []"
| "joinWith sep [x] = x"
| "joinWith sep (x # y # ys) = x @ sep @ joinWith sep (y # ys)"

text \<open>
  \<open>String.prototype.split\<close> with a one-character separator: the result is never
  empty (\<open>"".split("/")\<close> is \<open>[""]\<close>).
\<close>

fun splitOn :: "char \<Rightarrow> string \<Rightarrow> string list" where
  "splitOn c [] = [[]]"
| "splitOn c (x # xs) =
     (if x = c then [] # splitOn c xs
      else (case splitOn c xs of
              [] \<Rightarrow> [[x]]
            | s # ss \<Rightarrow> (x # s) # ss))"

text \<open>\<open>Array.prototype.pop\<close>, read for its result: \<open>undefined\<close> on an empty array.\<close>

fun pop :: "'a list \<Rightarrow> 'a option" where
  "pop [] = None"
| "pop (x # xs) = Some (last (x # xs))"

section \<open>The node model\<close>

text \<open>
  \<open>Record<string, string | undefined>\<close>: the attributes of an element, as the sequence
  \<open>Object.entries\<close> enumerates them. The keys of an object are distinct; a property read
  takes the first entry with the key.
\<close>

type_synonym attributes = "(string \<times> string option) list"

datatype DomNode =
    DomTextNode (content: string)
  | DomHtmlNode (tagName: string) (attributes: attributes) (children: "DomNode list")

fun isElement :: "DomNode \<Rightarrow> bool" where
  "isElement (DomHtmlNode _ _ _) = True"
| "isElement (DomTextNode _) = False"

text \<open>A property read \<open>attributes.key\<close>: \<open>undefined\<close> when the key is missing.\<close>

definition getAttribute :: "attributes \<Rightarrow> string \<Rightarrow> string option" where
  "getAttribute attrs key = (case map_of attrs key of None \<Rightarrow> None | Some v \<Rightarrow> v)"

section \<open>The attribute filter\<close>

text \<open>The list \<open>allowedRichTextElementAttributes\<close>, entry by entry (\<open>data-id\<close> stands twice).\<close>

definition allowedRichTextElementAttributes :: "string list" where
  "allowedRichTextElementAttributes =
    [''data-item-id'',
     ''data-item-external-id'',
     ''data-item-codename'',
     ''data-asset-id'',
     ''data-asset-external-id'',
     ''data-asset-codename'',
     ''data-new-window'',
     ''title'',
     ''target'',
     ''href'',
     ''data-image-id'',
     ''data-rel'',
     ''data-type'',
     ''data-codename'',
     ''data-id'',
     ''data-external-id'',
     ''src'',
     ''type'',
     ''data-id'',
     ''data-email-address'',
     ''data-email-subject'',
     ''data-phone-number'']"

text \<open>The \<open>.filter(([key]) => allowedRichTextElementAttributes.includes(key))\<close> step.\<close>

definition knownAttributes :: "attributes \<Rightarrow> attributes" where
  "knownAttributes attrs =
     filter (\<lambda>(key, value). key \<in> set allowedRichTextElementAttributes) attrs"

text \<open>The \<open>.map(([key, value]) => `${key}="${value}"`)\<close> step, for one entry.\<close>

definition attributeToken :: "string \<times> string option \<Rightarrow> string" where
  \<open>attributeToken entry = fst entry @ ''="'' @ templateString (snd entry) @ ''"''\<close>

definition serializeKnownAttributes :: "attributes \<Rightarrow> string" where
  "serializeKnownAttributes attrs = joinWith '' '' (map attributeToken (knownAttributes attrs))"

section \<open>Collaborators\<close>

text \<open>
  A rejected promise or a thrown exception is a value: \<open>Rejection\<close> for a
  \<open>reject("...")\<close> with a string reason, \<open>ErrorObject\<close> for an error thrown by a
  collaborator (axios, the URL parser, the management SDK), named by its message.
\<close>

datatype error = Rejection string | ErrorObject string

text \<open>
  What the first migration reads of an axios response: \<open>response.data\<close> (the bytes) and
  \<open>response.headers["content-type"]\<close>.
\<close>

record axios_response =
  responseData :: "nat list"
  responseContentType :: "string option"

text \<open>The argument of \<open>uploadBinaryFile().withData\<close>.\<close>

record binary_file_data =
  binaryData :: "nat list"
  contentLength :: nat
  contentType :: string
  filename :: string

text \<open>
  The argument of \<open>addAsset().withData\<close>: the file reference (its id and type), the title
  and the descriptions (language codename, description).
\<close>

record asset_data =
  fileReferenceId :: string
  fileReferenceType :: string
  title :: string
  descriptions :: "(string \<times> string) list"

text \<open>
  The argument of \<open>uploadAssetFromUrl().withData\<close>; the optional fields the source sets to
  \<open>undefined\<close> are left out.
\<close>

record asset_from_url_data =
  binaryFileFilename :: string
  fileUrl :: string
  assetTitle :: string
  assetDescriptions :: "(string \<times> string) list"

text \<open>
  The management client, as far as the migrations call it. Each call answers with the
  identifier \<open>data.id\<close> of its response, or fails.
\<close>

record ManagementClient =
  uploadBinaryFile :: "binary_file_data \<Rightarrow> error + string"
  addAsset :: "asset_data \<Rightarrow> error + string"
  uploadAssetFromUrl :: "asset_from_url_data \<Rightarrow> error + string"

text \<open>The context object \<open>{ client: apiClient }\<close> of the first migration.\<close>

record transform_context =
  client :: ManagementClient

text \<open>
  The platform functions the first migration imports: \<open>axios.get(url)\<close> and
  \<open>new URL(url).pathname\<close> (which throws on a string that is no URL). Both are taken as
  parameters.
\<close>

record platform =
  axiosGet :: "string \<Rightarrow> error + axios_response"
  urlPathname :: "string \<Rightarrow> error + string"

text \<open>
  The effects a transformer performs, in the order it performs them: requests to the
  collaborators and lines written with \<open>console.error\<close>.
\<close>

datatype event =
    AxiosGet string
  | UploadBinaryFileCall binary_file_data
  | AddAssetCall asset_data
  | UploadAssetFromUrlCall asset_from_url_data
  | ConsoleError string error

section \<open>The first migration: \<open>transformNodeToMapiRichText\<close>\<close>

text \<open>
  \<open>new URL(src).pathname.split("/").pop() || "unknown-file"\<close>, from the pathname on.
\<close>

definition filenameOfPathname :: "string \<Rightarrow> string" where
  "filenameOfPathname pathname = orElse (pop (splitOn CHR ''/'' pathname)) ''unknown-file''"

text \<open>The object passed to \<open>uploadBinaryFile().withData\<close>.\<close>

definition binaryFileData :: "axios_response \<Rightarrow> string \<Rightarrow> binary_file_data" where
  "binaryFileData response pathname =
     \<lparr>binaryData = responseData response,
      contentLength = length (responseData response),
      contentType = orElse (responseContentType response) ''application/octet-stream'',
      filename = filenameOfPathname pathname\<rparr>"

text \<open>The object built by the callback passed to \<open>addAsset().withData\<close>.\<close>

definition assetData :: "string \<Rightarrow> string \<Rightarrow> asset_data" where
  "assetData fileId pathname =
     \<lparr>fileReferenceId = fileId,
      fileReferenceType = ''internal'',
      title = filenameOfPathname pathname,
      descriptions = [(''default'', ''Auto-generated asset'')]\<rparr>"

text \<open>The string returned on success; \<open>assetResponse?.data.id\<close> may be \<open>undefined\<close>.\<close>

definition figureMarker :: "string option \<Rightarrow> string" where
  \<open>figureMarker assetId = ''<figure data-asset-id="'' @ templateString assetId @ ''"></figure>''\<close>

text \<open>
  The body of the \<open>try\<close> block: fetch the bytes, read the pathname, upload the binary file,
  create the asset. The result is the asset identifier (\<open>None\<close> when \<open>context\<close> is
  \<open>undefined\<close>: then \<open>context?.client\<close> skips both calls) or the error thrown, with the
  events performed up to that point.
\<close>

definition uploadImage ::
  "platform \<Rightarrow> transform_context option \<Rightarrow> string \<Rightarrow> (error + string option) \<times> event list" where
  "uploadImage P context src =
    (case axiosGet P src of
       Inl e \<Rightarrow> (Inl e, [AxiosGet src])
     | Inr response \<Rightarrow>
        (case urlPathname P src of
           Inl e \<Rightarrow> (Inl e, [AxiosGet src])
         | Inr pathname \<Rightarrow>
            (case context of
               None \<Rightarrow> (Inr None, [AxiosGet src])
             | Some ctx \<Rightarrow>
                (case uploadBinaryFile (client ctx) (binaryFileData response pathname) of
                   Inl e \<Rightarrow>
                     (Inl e, [AxiosGet src, UploadBinaryFileCall (binaryFileData response pathname)])
                 | Inr fileId \<Rightarrow>
                    (case addAsset (client ctx) (assetData fileId pathname) of
                       Inl e \<Rightarrow>
                         (Inl e, [AxiosGet src,
                                  UploadBinaryFileCall (binaryFileData response pathname),
                                  AddAssetCall (assetData fileId pathname)])
                     | Inr assetId \<Rightarrow>
                         (Inr (Some assetId),
                          [AxiosGet src,
                           UploadBinaryFileCall (binaryFileData response pathname),
                           AddAssetCall (assetData fileId pathname)]))))))"

text \<open>The \<open>try\<close>/\<open>catch\<close> around it: an error is written to the console and replaced by \<open><tag/>\<close>.\<close>

definition imageBranch ::
  "platform \<Rightarrow> transform_context option \<Rightarrow> string \<Rightarrow> string \<Rightarrow> (error + string list) \<times> event list" where
  "imageBranch P context tag src =
    (case uploadImage P context src of
       (Inr assetId, evs) \<Rightarrow> (Inr [figureMarker assetId], evs)
     | (Inl e, evs) \<Rightarrow>
         (Inr [''<'' @ tag @ ''/>''], evs @ [ConsoleError ''Error processing image node:'' e]))"

text \<open>The last statement of the element branch: opening tag, a space, the known attributes, the inner HTML, the closing tag.\<close>

definition elementBranch :: "string \<Rightarrow> attributes \<Rightarrow> string list \<Rightarrow> string list" where
  "elementBranch tag attrs processedItems =
     [''<'' @ tag @ '' '' @ serializeKnownAttributes attrs @ ''>'' @ concat processedItems
        @ ''</'' @ tag @ ''>'']"

text \<open>
  The callback itself. It answers with an array of strings; the outcome is a sum so that
  it fits the traversal, which accepts callbacks that reject.
\<close>

fun transformNodeToMapiRichText ::
  "platform \<Rightarrow> DomNode \<Rightarrow> string list \<Rightarrow> transform_context option
     \<Rightarrow> (error + string list) \<times> event list" where
  "transformNodeToMapiRichText P (DomHtmlNode tag attrs cs) processedItems context =
     (case getAttribute attrs ''src'' of
        None \<Rightarrow> (Inr (elementBranch tag attrs processedItems), [])
      | Some src \<Rightarrow>
          if tag = ''img'' \<and> src \<noteq> [] then imageBranch P context tag src
          else (Inr (elementBranch tag attrs processedItems), []))"
| "transformNodeToMapiRichText P (DomTextNode text) processedItems context = (Inr [text], [])"

section \<open>The second migration: the \<open>transformers\<close> map\<close>

text \<open>
  A transformer of the map gets the element, its children's HTML and the client, and
  resolves with a string or rejects.
\<close>

type_synonym transformer =
  "DomNode \<Rightarrow> string \<Rightarrow> ManagementClient option \<Rightarrow> (error + string) \<times> event list"

fun transformers_i :: transformer where
  "transformers_i node childrenHtml context = (Inr (''<em>'' @ childrenHtml @ ''</em>''), [])"

text \<open>\<open>src.split("/").pop() || "untitled_file"\<close>.\<close>

definition fileNameOfSrc :: "string \<Rightarrow> string" where
  "fileNameOfSrc src = orElse (pop (splitOn CHR ''/'' src)) ''untitled_file''"

text \<open>The object passed to \<open>uploadAssetFromUrl().withData\<close>.\<close>

definition assetFromUrlData :: "attributes \<Rightarrow> string \<Rightarrow> asset_from_url_data" where
  "assetFromUrlData attrs src =
     \<lparr>binaryFileFilename = fileNameOfSrc src,
      fileUrl = src,
      assetTitle = fileNameOfSrc src,
      assetDescriptions = [(''default'', orElse (getAttribute attrs ''alt'') ''No description'')]\<rparr>"

text \<open>
  The \<open>img\<close> transformer. A failed upload runs \<open>reject(err)\<close>; the \<open>resolve\<close> that follows
  finds the promise settled and changes nothing. The type of the map admits elements only.
\<close>

fun transformers_img :: transformer where
  "transformers_img (DomHtmlNode tag attrs cs) childrenHtml context =
     (case context of
        None \<Rightarrow> (Inl (Rejection ''Client is not provided''), [])
      | Some c \<Rightarrow>
         (case getAttribute attrs ''src'' of
            None \<Rightarrow> (Inl (Rejection ''Invalid IMG tag: no src attribute.''), [])
          | Some src \<Rightarrow>
             if src = [] then (Inl (Rejection ''Invalid IMG tag: no src attribute.''), [])
             else
               (case uploadAssetFromUrl c (assetFromUrlData attrs src) of
                  Inl err \<Rightarrow> (Inl err, [UploadAssetFromUrlCall (assetFromUrlData attrs src)])
                | Inr assetId \<Rightarrow>
                    (Inr (figureMarker (Some assetId)),
                     [UploadAssetFromUrlCall (assetFromUrlData attrs src)]))))"

text \<open>The map: exactly the keys \<open>i\<close> and \<open>img\<close>.\<close>

definition transformers :: "string \<Rightarrow> transformer option" where
  "transformers tag =
     (if tag = ''i'' then Some transformers_i
      else if tag = ''img'' then Some transformers_img
      else None)"

section \<open>The traversals of the rich-text resolver\<close>

text \<open>
  Modelled from the spec: \<open>traverseAndTransformNodesAsync\<close> is a function of the package
  \<open>@kontent-ai/rich-text-resolver\<close>, whose source is not part of the repository. After
  section 4.1 of the specification, and the callback of the first migration (which
  handles text nodes itself): the children of a node are traversed first, in their order;
  the callback then gets the node, the children's results and the context; the results of
  siblings are concatenated in document order; a rejection is not caught, and the whole
  traversal then rejects with no output. The children may run concurrently: the events of
  a successful traversal are listed node by node in document order, and when several nodes
  reject, the error named is that of the first in document order.
\<close>

fun traverseAndTransformNodesAsync ::
  "(DomNode \<Rightarrow> string list \<Rightarrow> 'c \<Rightarrow> (error + string list) \<times> event list) \<Rightarrow> 'c \<Rightarrow> DomNode list
     \<Rightarrow> error + string list \<times> event list"
and traverseAndTransformNode ::
  "(DomNode \<Rightarrow> string list \<Rightarrow> 'c \<Rightarrow> (error + string list) \<times> event list) \<Rightarrow> 'c \<Rightarrow> DomNode
     \<Rightarrow> error + string list \<times> event list" where
  "traverseAndTransformNodesAsync f context [] = Inr ([], [])"
| "traverseAndTransformNodesAsync f context (n # ns) =
     (case traverseAndTransformNode f context n of
        Inl e \<Rightarrow> Inl e
      | Inr (r1, evs1) \<Rightarrow>
         (case traverseAndTransformNodesAsync f context ns of
            Inl e \<Rightarrow> Inl e
          | Inr (r2, evs2) \<Rightarrow> Inr (r1 @ r2, evs1 @ evs2)))"
| "traverseAndTransformNode f context (DomTextNode text) =
     (case f (DomTextNode text) [] context of
        (Inl e, evs) \<Rightarrow> Inl e
      | (Inr r, evs) \<Rightarrow> Inr (r, evs))"
| "traverseAndTransformNode f context (DomHtmlNode tag attrs cs) =
     (case traverseAndTransformNodesAsync f context cs of
        Inl e \<Rightarrow> Inl e
      | Inr (processedItems, evs1) \<Rightarrow>
         (case f (DomHtmlNode tag attrs cs) processedItems context of
            (Inl e, evs2) \<Rightarrow> Inl e
          | (Inr r, evs2) \<Rightarrow> Inr (r, evs1 @ evs2)))"

text \<open>
  \<open>migration.run\<close> of the first migration, from the parsed rich text to the string it
  stores: the traversal with \<open>transformNodeToMapiRichText\<close>, then \<open>result.join("")\<close>.
\<close>

definition transformedRichText ::
  "platform \<Rightarrow> transform_context option \<Rightarrow> DomNode list \<Rightarrow> error + string \<times> event list" where
  "transformedRichText P context parsedRichText =
     (case traverseAndTransformNodesAsync (transformNodeToMapiRichText P) context parsedRichText of
        Inl e \<Rightarrow> Inl e
      | Inr (result, evs) \<Rightarrow> Inr (concat result, evs))"

text \<open>
  Modelled from the spec: \<open>nodesToHTMLAsync\<close> is a function of the same package, absent
  from the repository as well. After sections 4.1 and 4.4 of the specification: a text
  node yields its content; for an element the children are converted first and joined in
  document order, then the transformer registered for the exact tag name gets the node,
  the children's HTML and the context; a rejection is not caught. What the package emits
  for a tag with no transformer is taken as the parameter \<open>fallback\<close>.
\<close>

fun nodesToHTMLAsync ::
  "(DomNode \<Rightarrow> string \<Rightarrow> string) \<Rightarrow> (string \<Rightarrow> transformer option) \<Rightarrow> ManagementClient option
     \<Rightarrow> DomNode list \<Rightarrow> error + string \<times> event list"
and nodeToHTMLAsync ::
  "(DomNode \<Rightarrow> string \<Rightarrow> string) \<Rightarrow> (string \<Rightarrow> transformer option) \<Rightarrow> ManagementClient option
     \<Rightarrow> DomNode \<Rightarrow> error + string \<times> event list" where
  "nodesToHTMLAsync fallback registry context [] = Inr ([], [])"
| "nodesToHTMLAsync fallback registry context (n # ns) =
     (case nodeToHTMLAsync fallback registry context n of
        Inl e \<Rightarrow> Inl e
      | Inr (html1, evs1) \<Rightarrow>
         (case nodesToHTMLAsync fallback registry context ns of
            Inl e \<Rightarrow> Inl e
          | Inr (html2, evs2) \<Rightarrow> Inr (html1 @ html2, evs1 @ evs2)))"
| "nodeToHTMLAsync fallback registry context (DomTextNode text) = Inr (text, [])"
| "nodeToHTMLAsync fallback registry context (DomHtmlNode tag attrs cs) =
     (case nodesToHTMLAsync fallback registry context cs of
        Inl e \<Rightarrow> Inl e
      | Inr (childrenHtml, evs1) \<Rightarrow>
         (case registry tag of
            None \<Rightarrow> Inr (fallback (DomHtmlNode tag attrs cs) childrenHtml, evs1)
          | Some transformer \<Rightarrow>
             (case transformer (DomHtmlNode tag attrs cs) childrenHtml context of
                (Inl e, evs2) \<Rightarrow> Inl e
              | (Inr html, evs2) \<Rightarrow> Inr (html, evs1 @ evs2))))"

section \<open>Notions used to state the properties\<close>

text \<open>
  Stated from the specification's words: the markup a node tree stands for, written the
  way the specification writes its examples (\<open><span title="x">hi</span>\<close>): the tag
  name, each attribute after one space as \<open>key="value"\<close> (the bare key when the value is
  absent), the children's markup, the closing tag.
\<close>

fun markupAttribute :: "string \<times> string option \<Rightarrow> string" where
  \<open>markupAttribute (key, Some v) = '' '' @ key @ ''="'' @ v @ ''"''\<close>
| \<open>markupAttribute (key, None) = '' '' @ key\<close>

fun outerHTML :: "DomNode \<Rightarrow> string"
and innerHTML :: "DomNode list \<Rightarrow> string" where
  "outerHTML (DomTextNode text) = text"
| "outerHTML (DomHtmlNode tag attrs cs) =
     ''<'' @ tag @ concat (map markupAttribute attrs) @ ''>'' @ innerHTML cs @ ''</'' @ tag @ ''>''"
| "innerHTML [] = []"
| "innerHTML (n # ns) = outerHTML n @ innerHTML ns"

text \<open>
  An element that \<open>transformNodeToMapiRichText\<close> re-emits and whose attributes all pass the
  filter: it is not an \<open>img\<close> with a truthy \<open>src\<close>, it has at least one attribute, every
  key is on the allow-list and every value is present.
\<close>

definition reemittedElement :: "string \<Rightarrow> attributes \<Rightarrow> bool" where
  "reemittedElement tag attrs \<longleftrightarrow>
     \<not> (tag = ''img'' \<and> truthy (getAttribute attrs ''src'')) \<and> attrs \<noteq> [] \<and>
     list_all (\<lambda>(key, value). key \<in> set allowedRichTextElementAttributes \<and> value \<noteq> None) attrs"

text \<open>A tree, or a fragment, all of whose elements are such elements.\<close>

fun reemittedTree :: "DomNode \<Rightarrow> bool"
and reemittedFragment :: "DomNode list \<Rightarrow> bool" where
  "reemittedTree (DomTextNode text) = True"
| "reemittedTree (DomHtmlNode tag attrs cs) = (reemittedElement tag attrs \<and> reemittedFragment cs)"
| "reemittedFragment [] = True"
| "reemittedFragment (n # ns) = (reemittedTree n \<and> reemittedFragment ns)"

text \<open>The nodes of a tree and of a fragment, at every depth, in document order.\<close>

fun nodesOfTree :: "DomNode \<Rightarrow> DomNode list"
and nodesOfFragment :: "DomNode list \<Rightarrow> DomNode list" where
  "nodesOfTree (DomTextNode text) = [DomTextNode text]"
| "nodesOfTree (DomHtmlNode tag attrs cs) = DomHtmlNode tag attrs cs # nodesOfFragment cs"
| "nodesOfFragment [] = []"
| "nodesOfFragment (n # ns) = nodesOfTree n @ nodesOfFragment ns"

section \<open>Test doubles\<close>

text \<open>
  Collaborators with fixed answers, after the mocks of section 8 of the specification.
  The working platform answers every request with four bytes of type \<open>image/png\<close> and
  knows the pathname \<open>/y/pic.png\<close> of two URLs; the working client answers \<open>abc123\<close> to an
  upload and \<open>asset-1\<close> to the creation of an asset.
\<close>

definition mockPlatform :: platform where
  "mockPlatform =
     \<lparr>axiosGet = (\<lambda>url. Inr \<lparr>responseData = [137, 80, 78, 71], responseContentType = Some ''image/png''\<rparr>),
      urlPathname = (\<lambda>url. if url = ''http://x/y/pic.png'' \<or> url = ''http://x/y/pic.png?v=1''
                           then Inr ''/y/pic.png'' else Inl (ErrorObject ''Invalid URL''))\<rparr>"


definition mockClient :: ManagementClient where
  "mockClient =
     \<lparr>uploadBinaryFile = (\<lambda>request. Inr ''abc123''),
      addAsset = (\<lambda>request. Inr ''asset-1''),
      uploadAssetFromUrl = (\<lambda>request. Inr ''abc123'')\<rparr>"


definition mockContext :: transform_context where
  "mockContext = \<lparr>client = mockClient\<rparr>"

text \<open>The node \<open><img src="http://x/y/pic.png">\<close> and the same with a query string.\<close>

definition pictureNode :: DomNode where
  "pictureNode = DomHtmlNode ''img'' [(''src'', Some ''http://x/y/pic.png'')] []"

definition versionedPictureNode :: DomNode where
  "versionedPictureNode = DomHtmlNode ''img'' [(''src'', Some ''http://x/y/pic.png?v=1'')] []"

text \<open>A fallback for tags without a transformer, for fragments that do not reach it.\<close>

definition childrenOnly :: "DomNode \<Rightarrow> string \<Rightarrow> string" where
  "childrenOnly node childrenHtml = childrenHtml"

section \<open>Properties of the attribute filter\<close>

lemma allowed_attribute_names:
  "set allowedRichTextElementAttributes =
    {''data-item-id'', ''data-item-external-id'', ''data-item-codename'', ''data-asset-id'',
     ''data-asset-external-id'', ''data-asset-codename'', ''data-new-window'', ''title'',
     ''target'', ''href'', ''data-image-id'', ''data-rel'', ''data-type'', ''data-codename'',
     ''data-id'', ''data-external-id'', ''src'', ''type'', ''data-email-address'',
     ''data-email-subject'', ''data-phone-number''}"
  unfolding allowedRichTextElementAttributes_def by (simp add: insert_commute)

lemma knownAttributes_twice: "knownAttributes (knownAttributes attrs) = knownAttributes attrs"
  by (simp add: knownAttributes_def)

lemma attributeToken_undefined:
  "attributeToken (key, None) = attributeToken (key, Some ''undefined'')"
  by (simp add: attributeToken_def)

lemma joinWith_concat:
  "joinWith sep xs = (case xs of [] \<Rightarrow> [] | t # ts \<Rightarrow> t @ concat (map (\<lambda>x. sep @ x) ts))"
  by (induction sep xs rule: joinWith.induct) simp_all

lemma unrecognized_attribute_dropped:
  \<open>serializeKnownAttributes [(''href'', Some ''x''), (''onclick'', Some ''y'')] = ''href="x"''\<close>
  by (simp add: serializeKnownAttributes_def knownAttributes_def attributeToken_def
      allowedRichTextElementAttributes_def)

text \<open>
  Claim C4, as the specification states it: an entry whose value is absent is omitted from
  the serialized output. The code does not do so: for the mapping with the single entry
  \<open>title: undefined\<close> it answers \<open>title="undefined"\<close>, not the empty string it answers for
  the empty mapping.
\<close>

theorem absent_value_not_omitted:
  \<open>serializeKnownAttributes [(''title'', None)] = ''title="undefined"'' \<and>
   serializeKnownAttributes [] = []\<close>
  by (simp add: serializeKnownAttributes_def knownAttributes_def attributeToken_def
      allowedRichTextElementAttributes_def)

text \<open>
  Claim C4, amended: an entry whose value is absent is treated like an entry whose value
  is the string \<open>undefined\<close>. When its key is on the allow-list it is emitted, as the token
  \<open>key="undefined"\<close>; it is omitted only when its key is off the allow-list.
\<close>

theorem absent_value_serialized_as_undefined:
  \<open>serializeKnownAttributes (before @ (key, None) # after) =
     (if key \<in> set allowedRichTextElementAttributes
      then serializeKnownAttributes (before @ (key, Some ''undefined'') # after)
      else serializeKnownAttributes (before @ after)) \<and>
   serializeKnownAttributes [(key, None)] =
     (if key \<in> set allowedRichTextElementAttributes then key @ ''="undefined"'' else [])\<close>
  by (simp add: serializeKnownAttributes_def knownAttributes_def attributeToken_undefined)
     (simp add: attributeToken_def)

theorem absent_value_serialized_as_undefined_witness:
  \<open>serializeKnownAttributes [(''href'', Some ''x''), (''title'', None)] =
     serializeKnownAttributes [(''href'', Some ''x''), (''title'', Some ''undefined'')] \<and>
   serializeKnownAttributes [(''title'', None)] = ''title="undefined"''\<close>
  using absent_value_serialized_as_undefined [of "[(''href'', Some ''x'')]" "''title''" "[]"]
  by (simp add: allowedRichTextElementAttributes_def)

text \<open>
  Claim C5: for every attribute mapping the filter answers (it is a total function with no
  failing branch) with exactly the entries whose key is one of the twenty-one names of the
  allow-list, each as the token \<open>key="value"\<close>, in the order of the entries: the first
  token, then every further token after one space; every other key is dropped.
\<close>

theorem serializeKnownAttributes_allow_list:
  \<open>serializeKnownAttributes attrs =
     (case map (\<lambda>(key, value). key @ ''="'' @ (case value of None \<Rightarrow> ''undefined'' | Some v \<Rightarrow> v) @ ''"'')
            (filter (\<lambda>(key, value). key \<in>
               {''data-item-id'', ''data-item-external-id'', ''data-item-codename'',
                ''data-asset-id'', ''data-asset-external-id'', ''data-asset-codename'',
                ''data-new-window'', ''title'', ''target'', ''href'', ''data-image-id'',
                ''data-rel'', ''data-type'', ''data-codename'', ''data-id'', ''data-external-id'',
                ''src'', ''type'', ''data-email-address'', ''data-email-subject'',
                ''data-phone-number''}) attrs) of
        [] \<Rightarrow> []
      | token # tokens \<Rightarrow> token @ concat (map (\<lambda>t. '' '' @ t) tokens))\<close>
proof -
  have token: \<open>attributeToken =
      (\<lambda>(key, value). key @ ''="'' @ (case value of None \<Rightarrow> ''undefined'' | Some v \<Rightarrow> v) @ ''"'')\<close>
    by (auto simp: attributeToken_def fun_eq_iff split: option.splits)
  show ?thesis
    unfolding serializeKnownAttributes_def knownAttributes_def allowed_attribute_names token
    by (rule joinWith_concat)
qed

theorem serializeKnownAttributes_allow_list_witness:
  \<open>serializeKnownAttributes
      [(''class'', Some ''c''), (''href'', Some ''x''), (''onclick'', Some ''y''),
       (''title'', Some ''t''), (''target'', Some ''_blank''), (''style'', Some ''s''),
       (''data-id'', Some ''7'')]
     = ''href="x" title="t" target="_blank" data-id="7"''\<close>
  using serializeKnownAttributes_allow_list
    [of "[(''class'', Some ''c''), (''href'', Some ''x''), (''onclick'', Some ''y''),
       (''title'', Some ''t''), (''target'', Some ''_blank''), (''style'', Some ''s''),
       (''data-id'', Some ''7'')]"]
  by simp

text \<open>
  Claim C7: the filter is idempotent. Serializing an attribute mapping that was already
  restricted to the allow-listed keys gives the same string as serializing the original
  mapping, and restricting a second time changes nothing: no entry comes back.
\<close>

theorem serializeKnownAttributes_idempotent:
  "serializeKnownAttributes (knownAttributes attrs) = serializeKnownAttributes attrs \<and>
   knownAttributes (knownAttributes attrs) = knownAttributes attrs"
  by (simp add: serializeKnownAttributes_def knownAttributes_twice)

theorem serializeKnownAttributes_idempotent_witness:
  \<open>knownAttributes [(''href'', Some ''x''), (''onclick'', Some ''y'')] = [(''href'', Some ''x'')] \<and>
   serializeKnownAttributes [(''href'', Some ''x'')] =
     serializeKnownAttributes [(''href'', Some ''x''), (''onclick'', Some ''y'')]\<close>
proof -
  have restricted:
    "knownAttributes [(''href'', Some ''x''), (''onclick'', Some ''y'')] = [(''href'', Some ''x'')]"
    by (simp add: knownAttributes_def allowedRichTextElementAttributes_def)
  show ?thesis
    using serializeKnownAttributes_idempotent [of "[(''href'', Some ''x''), (''onclick'', Some ''y'')]"]
    unfolding restricted by simp
qed

section \<open>Lemmas on the first migration\<close>

lemma joinWith_prefixed:
  "xs \<noteq> [] \<Longrightarrow> sep @ joinWith sep xs = concat (map (\<lambda>x. sep @ x) xs)"
  by (induction sep xs rule: joinWith.induct) simp_all

lemma knownAttributes_all:
  "list_all (\<lambda>(key, value). key \<in> set allowedRichTextElementAttributes \<and> value \<noteq> None) attrs
    \<Longrightarrow> knownAttributes attrs = attrs"
  unfolding knownAttributes_def by (induction attrs) auto

lemma markup_tokens:
  "list_all (\<lambda>(key, value). key \<in> set allowedRichTextElementAttributes \<and> value \<noteq> None) attrs
    \<Longrightarrow> concat (map (\<lambda>x. '' '' @ x) (map attributeToken attrs)) = concat (map markupAttribute attrs)"
  by (induction attrs) (auto simp: attributeToken_def)

lemma open_tag:
  assumes "attrs \<noteq> []"
    and "list_all (\<lambda>(key, value). key \<in> set allowedRichTextElementAttributes \<and> value \<noteq> None) attrs"
  shows "'' '' @ serializeKnownAttributes attrs = concat (map markupAttribute attrs)"
proof -
  have "map attributeToken attrs \<noteq> []" using assms(1) by simp
  then have "'' '' @ joinWith '' '' (map attributeToken attrs)
      = concat (map (\<lambda>x. '' '' @ x) (map attributeToken attrs))"
    by (rule joinWith_prefixed)
  then show ?thesis
    using markup_tokens[OF assms(2)] knownAttributes_all[OF assms(2)]
    by (simp only: serializeKnownAttributes_def)
qed

lemma reemitted_transform:
  assumes "reemittedElement tag attrs"
  shows "transformNodeToMapiRichText P (DomHtmlNode tag attrs cs) processedItems context =
     (Inr [''<'' @ tag @ concat (map markupAttribute attrs) @ ''>'' @ concat processedItems @ ''</'' @ tag @ ''>''], [])"
proof -
  from assms have a: "attrs \<noteq> []"
    and b: "list_all (\<lambda>(key, value). key \<in> set allowedRichTextElementAttributes \<and> value \<noteq> None) attrs"
    and c: "\<not> (tag = ''img'' \<and> truthy (getAttribute attrs ''src''))"
    by (simp_all add: reemittedElement_def)
  have e: "elementBranch tag attrs processedItems =
     [''<'' @ tag @ concat (map markupAttribute attrs) @ ''>'' @ concat processedItems @ ''</'' @ tag @ ''>'']"
    using open_tag[OF a b] by (simp add: elementBranch_def)
  show ?thesis using c by (auto simp: e split: option.splits)
qed

lemma no_attributes_transform:
  \<open>transformNodeToMapiRichText P (DomHtmlNode tag [] cs) processedItems c =
     (Inr [''<'' @ tag @ '' >'' @ concat processedItems @ ''</'' @ tag @ ''>''], [])\<close>
  by (simp add: getAttribute_def elementBranch_def serializeKnownAttributes_def knownAttributes_def)








lemma traverse_singleton:
  "traverseAndTransformNodesAsync f c [n] = traverseAndTransformNode f c n"
  by (auto split: sum.splits)

lemma traverse_reemitted:
  shows "reemittedTree n \<Longrightarrow>
          traverseAndTransformNode (transformNodeToMapiRichText P) c n = Inr ([outerHTML n], [])"
    and "reemittedFragment ns \<Longrightarrow>
          traverseAndTransformNodesAsync (transformNodeToMapiRichText P) c ns
            = Inr (map outerHTML ns, [])"
proof (induction n and ns rule: reemittedTree_reemittedFragment.induct)
  case (1 t)
  then show ?case by simp
next
  case (2 tag attrs cs)
  then have kids: "traverseAndTransformNodesAsync (transformNodeToMapiRichText P) c cs
            = Inr (map outerHTML cs, [])"
    and el: "reemittedElement tag attrs" by simp_all
  have inner: "concat (map outerHTML cs) = innerHTML cs"
    by (induction cs) simp_all
  show ?case
    using kids reemitted_transform[OF el, of P cs "map outerHTML cs" c] inner
    by (simp del: transformNodeToMapiRichText.simps)
next
  case 3
  then show ?case by simp
next
  case (4 n ns)
  then show ?case by simp
qed

lemma splitOn_nonempty: "splitOn c s \<noteq> []"
  by (induction s) (auto split: list.splits)

lemma pop_splitOn: "pop (splitOn c s) = Some (last (splitOn c s))"
  using splitOn_nonempty[of c s] by (cases "splitOn c s") simp_all

section \<open>Lemmas on the second migration\<close>

lemma transformers_img_rejects:
  "\<not> truthy (getAttribute attrs ''src'') \<Longrightarrow>
     \<exists>e evs. transformers_img (DomHtmlNode tag attrs cs) childrenHtml c = (Inl e, evs)"
  by (cases c; cases "getAttribute attrs ''src''") auto

lemma nodesToHTMLAsync_rejects_at:
  assumes "\<forall>childrenHtml. \<exists>e evs.
             transformers_img (DomHtmlNode ''img'' attrs cs) childrenHtml c = (Inl e, evs)"
  shows "DomHtmlNode ''img'' attrs cs \<in> set (nodesOfTree n)
           \<Longrightarrow> \<exists>e. nodeToHTMLAsync fallback transformers c n = Inl e"
    and "DomHtmlNode ''img'' attrs cs \<in> set (nodesOfFragment ns)
           \<Longrightarrow> \<exists>e. nodesToHTMLAsync fallback transformers c ns = Inl e"
proof (induction n and ns rule: nodesOfTree_nodesOfFragment.induct)
  case (1 t)
  then show ?case by simp
next
  case (2 tag' attrs' cs')
  show ?case
  proof (cases "nodesToHTMLAsync fallback transformers c cs'")
    case (Inl e)
    then show ?thesis by simp
  next
    case (Inr r)
    with 2 have here: "DomHtmlNode ''img'' attrs cs = DomHtmlNode tag' attrs' cs'"
      by auto
    obtain e evs where "transformers_img (DomHtmlNode tag' attrs' cs') (fst r) c = (Inl e, evs)"
      using assms here by metis
    moreover from here have "tag' = ''img''" by simp
    then have "transformers tag' = Some transformers_img"
      by (simp add: transformers_def)
    ultimately show ?thesis using Inr
      by (cases r) (simp del: transformers_img.simps)
  qed
next
  case 3
  then show ?case by simp
next
  case (4 n ns)
  then show ?case by (auto split: sum.splits)
qed

section \<open>Properties of the image transformers\<close>




text \<open>
  Claim C2, as the specification states it: an \<open>img\<close> node without \<open>src\<close> makes the
  transformer fail and the traversal abort, with no output for the node. The callback of
  the first migration does not fail on such a node: it re-emits it, and the traversal
  resolves.
\<close>

theorem missing_src_reemitted_by_callback:
  "transformNodeToMapiRichText mockPlatform (DomHtmlNode ''img'' [] []) [] (Some mockContext)
     = (Inr [''<img ></img>''], []) \<and>
   transformedRichText mockPlatform (Some mockContext) [DomTextNode ''a'', DomHtmlNode ''img'' [] []]
     = Inr (''a<img ></img>'', [])"
  by (simp add: transformedRichText_def getAttribute_def elementBranch_def
      serializeKnownAttributes_def knownAttributes_def)

text \<open>
  Claim C2, amended: for every element whose \<open>src\<close> is absent, \<open>undefined\<close> or empty, the
  \<open>img\<close> transformer of the second migration, given a client, rejects with the reason
  \<open>Invalid IMG tag: no src attribute.\<close> before any call to the client; given no client it
  rejects with the reason \<open>Client is not provided\<close>. The conversion of such an \<open>img\<close> node
  rejects with that reason when its children convert, and the conversion of every fragment
  that holds the node at any depth rejects, whatever the client. In the first migration
  \<open>transformNodeToMapiRichText\<close> does not fail on such a node: it re-emits it as
  \<open><img attributes>children</img>\<close>.
\<close>

theorem missing_src_rejects_in_transformers_img:
  assumes "\<not> truthy (getAttribute attrs ''src'')"
  shows "transformers_img (DomHtmlNode tag attrs cs) childrenHtml (Some cl)
           = (Inl (Rejection ''Invalid IMG tag: no src attribute.''), [])
       \<and> (\<forall>nodes. DomHtmlNode ''img'' attrs cs \<in> set (nodesOfFragment nodes)
             \<longrightarrow> (\<exists>e. nodesToHTMLAsync fallback transformers c nodes = Inl e))
       \<and> transformNodeToMapiRichText P (DomHtmlNode ''img'' attrs cs) processedItems c'
           = (Inr [''<img '' @ serializeKnownAttributes attrs @ ''>'' @ concat processedItems
                     @ ''</img>''], [])
       \<and> transformers_img (DomHtmlNode tag attrs cs) childrenHtml None
           = (Inl (Rejection ''Client is not provided''), [])
       \<and> nodeToHTMLAsync fallback transformers (Some cl) (DomHtmlNode ''img'' attrs cs)
           = (case nodesToHTMLAsync fallback transformers (Some cl) cs of
                Inl e \<Rightarrow> Inl e
              | Inr r \<Rightarrow> Inl (Rejection ''Invalid IMG tag: no src attribute.''))
       \<and> nodeToHTMLAsync fallback transformers None (DomHtmlNode ''img'' attrs cs)
           = (case nodesToHTMLAsync fallback transformers None cs of
                Inl e \<Rightarrow> Inl e
              | Inr r \<Rightarrow> Inl (Rejection ''Client is not provided''))"
proof -
  have a: "transformers_img (DomHtmlNode tg attrs cs) h (Some cl)
           = (Inl (Rejection ''Invalid IMG tag: no src attribute.''), [])" for tg h
    using assms by (cases "getAttribute attrs ''src''") auto
  have b: "transformNodeToMapiRichText P (DomHtmlNode ''img'' attrs cs) processedItems c'
           = (Inr [''<img '' @ serializeKnownAttributes attrs @ ''>'' @ concat processedItems
                     @ ''</img>''], [])"
    using assms by (cases "getAttribute attrs ''src''") (auto simp: elementBranch_def)
  have n: "transformers_img (DomHtmlNode tg attrs cs) h None
           = (Inl (Rejection ''Client is not provided''), [])" for tg h
    by simp
  have rej: "\<forall>h. \<exists>e evs. transformers_img (DomHtmlNode ''img'' attrs cs) h c = (Inl e, evs)"
    using transformers_img_rejects[OF assms] by blast
  have d: "nodeToHTMLAsync fallback transformers (Some cl) (DomHtmlNode ''img'' attrs cs)
           = (case nodesToHTMLAsync fallback transformers (Some cl) cs of
                Inl e \<Rightarrow> Inl e
              | Inr r \<Rightarrow> Inl (Rejection ''Invalid IMG tag: no src attribute.''))"
    using a[of "''img''"]
    by (auto simp: transformers_def simp del: transformers_img.simps split: sum.splits)
  have e: "nodeToHTMLAsync fallback transformers None (DomHtmlNode ''img'' attrs cs)
           = (case nodesToHTMLAsync fallback transformers None cs of
                Inl e \<Rightarrow> Inl e
              | Inr r \<Rightarrow> Inl (Rejection ''Client is not provided''))"
    by (auto simp: transformers_def split: sum.splits)
  show ?thesis using a b n d e nodesToHTMLAsync_rejects_at(2)[OF rej] by blast
qed

theorem missing_src_rejects_in_transformers_img_witness:
  "\<not> truthy (getAttribute [(''alt'', Some ''a'')] ''src'') \<and>
   transformers_img (DomHtmlNode ''img'' [(''alt'', Some ''a'')] []) [] (Some mockClient)
     = (Inl (Rejection ''Invalid IMG tag: no src attribute.''), []) \<and>
   transformers_img (DomHtmlNode ''img'' [(''alt'', Some ''a'')] []) [] None
     = (Inl (Rejection ''Client is not provided''), []) \<and>
   nodesToHTMLAsync childrenOnly transformers (Some mockClient)
      [DomTextNode ''a'', DomHtmlNode ''i'' [] [DomHtmlNode ''img'' [(''alt'', Some ''a'')] []]]
     = Inl (Rejection ''Invalid IMG tag: no src attribute.'') \<and>
   nodesToHTMLAsync childrenOnly transformers None
      [DomTextNode ''a'', DomHtmlNode ''i'' [] [DomHtmlNode ''img'' [(''alt'', Some ''a'')] []]]
     = Inl (Rejection ''Client is not provided'')"
proof -
  have h: "\<not> truthy (getAttribute [(''alt'', Some ''a'')] ''src'')"
    by (simp add: getAttribute_def)
  show ?thesis
    using h missing_src_rejects_in_transformers_img [OF h, of "''img''" "[]" "[]" mockClient childrenOnly "Some mockClient" mockPlatform "[]" None]
    by (simp add: transformers_def getAttribute_def)
qed

text \<open>
  Claim C3, as the specification states it: the identifier in the \<open>figure\<close> marker is the
  one returned by the byte-upload step. In the first migration it is not: with a client
  that answers \<open>abc123\<close> to the upload of the bytes and \<open>asset-1\<close> to the creation of the
  asset, the marker holds \<open>asset-1\<close>.
\<close>

theorem figure_marker_not_upload_id:
  \<open>uploadBinaryFile (client mockContext)
      \<lparr>binaryData = [137, 80, 78, 71], contentLength = 4,
       contentType = ''image/png'', filename = ''pic.png''\<rparr> = Inr ''abc123'' \<and>
   fst (transformNodeToMapiRichText mockPlatform pictureNode [] (Some mockContext))
     = Inr [''<figure data-asset-id="asset-1"></figure>''] \<and>
   ''<figure data-asset-id="asset-1"></figure>'' \<noteq> ''<figure data-asset-id="abc123"></figure>''\<close>
  by (simp add: pictureNode_def mockPlatform_def mockClient_def mockContext_def
        binaryFileData_def assetData_def filenameOfPathname_def imageBranch_def uploadImage_def
        figureMarker_def getAttribute_def)

text \<open>
  Claim C3, amended: for every \<open>img\<close> element with a non-empty \<open>src\<close>, when the fetch and
  the storage-client calls succeed, the result is exactly
  \<open><figure data-asset-id="ID"></figure>\<close>, where \<open>ID\<close> is the identifier returned by the last
  storage-client call: \<open>addAsset\<close>, the creation of the asset from the uploaded file, in
  \<open>transformNodeToMapiRichText\<close>, and \<open>uploadAssetFromUrl\<close> in the \<open>img\<close> transformer of the
  second migration.
\<close>

theorem figure_marker_holds_asset_id:
  assumes "getAttribute attrs ''src'' = Some src" "src \<noteq> []"
  shows \<open>(axiosGet P src = Inr response \<and> urlPathname P src = Inr pathname \<and>
          uploadBinaryFile (client ctx) (binaryFileData response pathname) = Inr fileId \<and>
          addAsset (client ctx) (assetData fileId pathname) = Inr assetId
          \<longrightarrow> transformNodeToMapiRichText P (DomHtmlNode ''img'' attrs cs) processedItems (Some ctx)
                = (Inr [''<figure data-asset-id="'' @ assetId @ ''"></figure>''],
                   [AxiosGet src, UploadBinaryFileCall (binaryFileData response pathname),
                    AddAssetCall (assetData fileId pathname)]))
       \<and> (uploadAssetFromUrl cl (assetFromUrlData attrs src) = Inr assetId'
          \<longrightarrow> transformers_img (DomHtmlNode tag attrs cs) childrenHtml (Some cl)
                = (Inr (''<figure data-asset-id="'' @ assetId' @ ''"></figure>''),
                   [UploadAssetFromUrlCall (assetFromUrlData attrs src)]))\<close>
  using assms by (simp add: imageBranch_def uploadImage_def figureMarker_def)

theorem figure_marker_holds_asset_id_witness:
  \<open>transformNodeToMapiRichText mockPlatform pictureNode [] (Some mockContext)
     = (Inr [''<figure data-asset-id="asset-1"></figure>''],
        [AxiosGet ''http://x/y/pic.png'',
         UploadBinaryFileCall \<lparr>binaryData = [137, 80, 78, 71], contentLength = 4,
            contentType = ''image/png'', filename = ''pic.png''\<rparr>,
         AddAssetCall \<lparr>fileReferenceId = ''abc123'', fileReferenceType = ''internal'',
            title = ''pic.png'', descriptions = [(''default'', ''Auto-generated asset'')]\<rparr>]) \<and>
   transformers_img pictureNode [] (Some mockClient)
     = (Inr ''<figure data-asset-id="abc123"></figure>'',
        [UploadAssetFromUrlCall \<lparr>binaryFileFilename = ''pic.png'', fileUrl = ''http://x/y/pic.png'',
           assetTitle = ''pic.png'', assetDescriptions = [(''default'', ''No description'')]\<rparr>])\<close>
proof -
  have h1: "getAttribute [(''src'', Some ''http://x/y/pic.png'')] ''src'' = Some ''http://x/y/pic.png''"
    by (simp add: getAttribute_def)
  have h2: "''http://x/y/pic.png'' \<noteq> []" by simp
  show ?thesis
    using figure_marker_holds_asset_id [OF h1 h2, of mockPlatform
        "\<lparr>responseData = [137, 80, 78, 71], responseContentType = Some ''image/png''\<rparr>"
        "''/y/pic.png''" mockContext "''abc123''" "''asset-1''" "[]" "[]" mockClient "''abc123''"
        "''img''" "[]"]
    by (simp add: pictureNode_def mockPlatform_def mockClient_def mockContext_def
        binaryFileData_def assetData_def assetFromUrlData_def filenameOfPathname_def
        fileNameOfSrc_def getAttribute_def)
qed

text \<open>
  Claim C8, as the specification states it: the filename given to the storage client is
  the final segment of the URL path. In the second migration it is the final segment of
  the whole \<open>src\<close> string: for \<open>http://x/y/pic.png?v=1\<close>, whose path \<open>/y/pic.png\<close> ends in
  \<open>pic.png\<close>, the client is given \<open>pic.png?v=1\<close>, and no content type.
\<close>

theorem filename_keeps_query_string:
  \<open>urlPathname mockPlatform ''http://x/y/pic.png?v=1'' = Inr ''/y/pic.png'' \<and>
   last (splitOn CHR ''/'' ''/y/pic.png'') = ''pic.png'' \<and>
   snd (transformers_img versionedPictureNode [] (Some mockClient)) =
     [UploadAssetFromUrlCall \<lparr>binaryFileFilename = ''pic.png?v=1'',
        fileUrl = ''http://x/y/pic.png?v=1'', assetTitle = ''pic.png?v=1'',
        assetDescriptions = [(''default'', ''No description'')]\<rparr>]\<close>
  by (simp add: versionedPictureNode_def mockPlatform_def mockClient_def
        assetFromUrlData_def fileNameOfSrc_def getAttribute_def)

text \<open>
  Claim C8, amended: for every \<open>img\<close> element with a non-empty \<open>src\<close>, in
  \<open>transformNodeToMapiRichText\<close> the upload that follows a successful fetch is given, as
  filename, the final \<open>/\<close>-separated segment of the pathname of the URL, or
  \<open>unknown-file\<close> when that segment is empty, and, as content type, the \<open>content-type\<close>
  header of the response, or \<open>application/octet-stream\<close> when the header is absent or
  empty. In the \<open>img\<close> transformer of the second migration the client is given, as
  filename, the final \<open>/\<close>-separated segment of the whole \<open>src\<close> string (a query string
  stays in it), or \<open>untitled_file\<close> when that segment is empty, and the URL itself; no
  content type is passed.
\<close>

theorem filename_and_content_type_passed:
  assumes "getAttribute attrs ''src'' = Some src" "src \<noteq> []"
  shows "(axiosGet P src = Inr response \<and> urlPathname P src = Inr pathname \<longrightarrow>
          (\<exists>rest. snd (transformNodeToMapiRichText P (DomHtmlNode ''img'' attrs cs) processedItems (Some ctx)) =
             AxiosGet src #
             UploadBinaryFileCall
               \<lparr>binaryData = responseData response,
                contentLength = length (responseData response),
                contentType = (case responseContentType response of
                                 None \<Rightarrow> ''application/octet-stream''
                               | Some t \<Rightarrow> if t = [] then ''application/octet-stream'' else t),
                filename = (if last (splitOn CHR ''/'' pathname) = [] then ''unknown-file''
                            else last (splitOn CHR ''/'' pathname))\<rparr> # rest))
       \<and> snd (transformers_img (DomHtmlNode tag attrs cs) childrenHtml (Some cl)) =
           [UploadAssetFromUrlCall
              \<lparr>binaryFileFilename = (if last (splitOn CHR ''/'' src) = [] then ''untitled_file''
                                     else last (splitOn CHR ''/'' src)),
               fileUrl = src,
               assetTitle = (if last (splitOn CHR ''/'' src) = [] then ''untitled_file''
                             else last (splitOn CHR ''/'' src)),
               assetDescriptions = [(''default'', orElse (getAttribute attrs ''alt'') ''No description'')]\<rparr>]"
proof -
  have name: "filenameOfPathname pathname =
      (if last (splitOn CHR ''/'' pathname) = [] then ''unknown-file''
       else last (splitOn CHR ''/'' pathname))"
    by (simp add: filenameOfPathname_def pop_splitOn)
  have ctype: "orElse (responseContentType response) ''application/octet-stream'' =
      (case responseContentType response of
         None \<Rightarrow> ''application/octet-stream''
       | Some t \<Rightarrow> if t = [] then ''application/octet-stream'' else t)"
    by (cases "responseContentType response") simp_all
  have first: "\<exists>rest. snd (transformNodeToMapiRichText P (DomHtmlNode ''img'' attrs cs) processedItems (Some ctx)) =
             AxiosGet src # UploadBinaryFileCall (binaryFileData response pathname) # rest"
    if "axiosGet P src = Inr response" "urlPathname P src = Inr pathname"
    using assms that
    by (auto simp: imageBranch_def uploadImage_def split: sum.splits)
  have second: "snd (transformers_img (DomHtmlNode tag attrs cs) childrenHtml (Some cl)) =
           [UploadAssetFromUrlCall (assetFromUrlData attrs src)]"
    using assms by (auto split: sum.splits)
  have name2: "fileNameOfSrc src = (if last (splitOn CHR ''/'' src) = [] then ''untitled_file''
                                     else last (splitOn CHR ''/'' src))"
    by (simp add: fileNameOfSrc_def pop_splitOn)
  show ?thesis
    using first second unfolding binaryFileData_def assetFromUrlData_def name name2 ctype
    by blast
qed

theorem filename_and_content_type_passed_witness:
  \<open>snd (transformNodeToMapiRichText mockPlatform pictureNode [] (Some mockContext)) =
     [AxiosGet ''http://x/y/pic.png'',
      UploadBinaryFileCall \<lparr>binaryData = [137, 80, 78, 71], contentLength = 4,
         contentType = ''image/png'', filename = ''pic.png''\<rparr>,
      AddAssetCall \<lparr>fileReferenceId = ''abc123'', fileReferenceType = ''internal'',
         title = ''pic.png'', descriptions = [(''default'', ''Auto-generated asset'')]\<rparr>] \<and>
   snd (transformers_img pictureNode [] (Some mockClient)) =
     [UploadAssetFromUrlCall \<lparr>binaryFileFilename = ''pic.png'', fileUrl = ''http://x/y/pic.png'',
        assetTitle = ''pic.png'', assetDescriptions = [(''default'', ''No description'')]\<rparr>]\<close>
proof -
  have h1: "getAttribute [(''src'', Some ''http://x/y/pic.png'')] ''src'' = Some ''http://x/y/pic.png''"
    by (simp add: getAttribute_def)
  have h2: "''http://x/y/pic.png'' \<noteq> []" by simp
  show ?thesis
    using filename_and_content_type_passed [OF h1 h2, of mockPlatform
        "\<lparr>responseData = [137, 80, 78, 71], responseContentType = Some ''image/png''\<rparr>"
        "''/y/pic.png''" "[]" "[]" mockContext "''img''" "[]" mockClient]
    by (simp add: pictureNode_def mockPlatform_def mockClient_def mockContext_def
        binaryFileData_def assetData_def assetFromUrlData_def filenameOfPathname_def
        fileNameOfSrc_def getAttribute_def imageBranch_def uploadImage_def)
qed

section \<open>Properties of the other transformers\<close>

text \<open>
  Claim C6, as the specification states it: the default branch re-emits an element with
  only allow-listed attributes exactly, also an element with no attribute. For an element
  with no attribute the output has a space after the tag name: \<open><span>hi</span>\<close> becomes
  \<open><span >hi</span>\<close>.
\<close>

theorem no_attributes_adds_space:
  \<open>transformedRichText mockPlatform None [DomHtmlNode ''span'' [] [DomTextNode ''hi'']]
     = Inr (''<span >hi</span>'', []) \<and>
   outerHTML (DomHtmlNode ''span'' [] [DomTextNode ''hi'']) = ''<span>hi</span>''\<close>
  by (simp add: transformedRichText_def getAttribute_def elementBranch_def
      serializeKnownAttributes_def knownAttributes_def)

text \<open>
  Claim C6, amended: for every element that \<open>transformNodeToMapiRichText\<close> re-emits (not an
  \<open>img\<close> with a non-empty \<open>src\<close>) and that carries at least one attribute, all
  attributes allow-listed with a value present, the output is exactly the opening tag with
  the attributes, the children's output and the closing tag; when the elements below it
  are of that kind too, the traversal answers exactly the markup of the tree, so
  \<open><span title="x">hi</span>\<close> transforms to itself. For every element with no attribute
  the output is \<open><tag >children</tag>\<close>, with one space after the tag name, which is not
  the markup \<open><tag>children</tag>\<close> of the element.
\<close>

theorem reemitted_element_round_trip:
  \<open>(reemittedElement tag attrs \<longrightarrow>
      transformNodeToMapiRichText P (DomHtmlNode tag attrs cs) processedItems c =
           (Inr [''<'' @ tag @ concat (map markupAttribute attrs) @ ''>'' @ concat processedItems
                   @ ''</'' @ tag @ ''>''], [])
       \<and> (reemittedFragment cs \<longrightarrow>
            transformedRichText P c [DomHtmlNode tag attrs cs]
              = Inr (outerHTML (DomHtmlNode tag attrs cs), [])))
   \<and> transformNodeToMapiRichText P (DomHtmlNode tag [] cs) processedItems c =
        (Inr [''<'' @ tag @ '' >'' @ concat processedItems @ ''</'' @ tag @ ''>''], [])
   \<and> (reemittedFragment cs \<longrightarrow>
        transformedRichText P c [DomHtmlNode tag [] cs]
          = Inr (''<'' @ tag @ '' >'' @ innerHTML cs @ ''</'' @ tag @ ''>'', []))
   \<and> ''<'' @ tag @ '' >'' @ innerHTML cs @ ''</'' @ tag @ ''>'' \<noteq> outerHTML (DomHtmlNode tag [] cs)\<close>
proof -
  have round: "transformedRichText P c [DomHtmlNode tag attrs cs]
              = Inr (outerHTML (DomHtmlNode tag attrs cs), [])"
    if "reemittedElement tag attrs" "reemittedFragment cs"
  proof -
    have "reemittedFragment [DomHtmlNode tag attrs cs]" using that by simp
    from traverse_reemitted(2)[OF this, of P c] show ?thesis
      by (simp add: transformedRichText_def del: traverseAndTransformNodesAsync.simps)
  qed
  have inner: "concat (map outerHTML cs) = innerHTML cs"
    by (induction cs) simp_all
  have bare: \<open>transformedRichText P c [DomHtmlNode tag [] cs]
          = Inr (''<'' @ tag @ '' >'' @ innerHTML cs @ ''</'' @ tag @ ''>'', [])\<close>
    if "reemittedFragment cs"
    using traverse_reemitted(2)[OF that, of P c] no_attributes_transform[of P tag cs "map outerHTML cs" c] inner
    by (simp add: transformedRichText_def del: transformNodeToMapiRichText.simps)
  have differ: \<open>''<'' @ tag @ '' >'' @ innerHTML cs @ ''</'' @ tag @ ''>'' \<noteq> outerHTML (DomHtmlNode tag [] cs)\<close>
    by simp
  show ?thesis
    using round bare differ reemitted_transform[of tag attrs P cs processedItems c]
      no_attributes_transform[of P tag cs processedItems c]
    by blast
qed

theorem reemitted_element_round_trip_witness:
  \<open>reemittedElement ''span'' [(''title'', Some ''x'')] \<and>
   reemittedFragment [DomTextNode ''hi''] \<and>
   transformedRichText mockPlatform None [DomHtmlNode ''span'' [(''title'', Some ''x'')] [DomTextNode ''hi'']]
     = Inr (''<span title="x">hi</span>'', []) \<and>
   transformedRichText mockPlatform None [DomHtmlNode ''span'' [] [DomTextNode ''hi'']]
     = Inr (''<span >hi</span>'', [])\<close>
proof -
  have h: "reemittedElement ''span'' [(''title'', Some ''x'')]"
    by (simp add: reemittedElement_def getAttribute_def allowedRichTextElementAttributes_def)
  have k: "reemittedFragment [DomTextNode ''hi'']" by simp
  show ?thesis
    using h k reemitted_element_round_trip [of "''span''" "[(''title'', Some ''x'')]" mockPlatform "[DomTextNode ''hi'']" "[]" None]
    by simp
qed

text \<open>
  Claim C10: the transformer registered for the tag \<open>i\<close> answers \<open><em>\<close>, the children's
  HTML and \<open></em>\<close>, for every element, whatever its tag name, attributes and context;
  the conversion of an \<open>i\<close> element is its children's conversion between \<open><em>\<close> and
  \<open></em>\<close>.
\<close>

theorem transformers_i_emits_em:
  "transformers ''i'' = Some transformers_i \<and>
   transformers_i (DomHtmlNode tag attrs cs) childrenHtml c
     = (Inr (''<em>'' @ childrenHtml @ ''</em>''), []) \<and>
   nodeToHTMLAsync fallback transformers c (DomHtmlNode ''i'' attrs cs) =
     (case nodesToHTMLAsync fallback transformers c cs of
        Inl e \<Rightarrow> Inl e
      | Inr (html, evs) \<Rightarrow> Inr (''<em>'' @ html @ ''</em>'', evs))"
  by (auto simp: transformers_def split: sum.splits)

theorem transformers_i_emits_em_witness:
  "transformers_i (DomHtmlNode ''i'' [(''title'', Some ''x'')] [DomTextNode ''hi'']) ''hi'' None
     = (Inr ''<em>hi</em>'', []) \<and>
   nodeToHTMLAsync childrenOnly transformers None
      (DomHtmlNode ''i'' [(''title'', Some ''x'')] [DomTextNode ''hi''])
     = Inr (''<em>hi</em>'', [])"
  using transformers_i_emits_em [of "''i''" "[(''title'', Some ''x'')]" "[DomTextNode ''hi'']" "''hi''" None childrenOnly]
  by simp

end
